theory Spec2Isabelle
  imports Complex_Main "HOL-Library.Sublist" "HOL-Library.Multiset"
begin

section \<open>Data model\<close>

text \<open>
  \<^verbatim>\<open>storage.list_movies()\<close> returns a Python dict
  \<^verbatim>\<open>{title: {"year": .., "rating": .., "image": ..}}\<close>.  A Python dict iterates in
  insertion order and holds every key once, so the snapshot is an association list whose
  keys are distinct (\<open>distinct (keys movies)\<close> is the dict invariant; the theorems that
  need it take it as a hypothesis).  Ratings are SQLite \<^verbatim>\<open>REAL\<close>s, modelled as real
  numbers: comparisons and the mean of two ratings are exact here, rounding of IEEE
  doubles is outside this model.
\<close>

record movie_info =
  year :: int
  rating :: real
  image_url :: string

type_synonym movies = "(string \<times> movie_info) list"

datatype py_error = ZeroDivisionError | IndexError | KeyError | ValueError

text \<open>
  The functions of \<^verbatim>\<open>movies.py\<close> print their results.  One value of \<open>line\<close> is
  one call of \<^verbatim>\<open>print\<close>, holding the values the format string is filled with:
  \<^item> \<open>Movie_line\<close>: \<^verbatim>\<open>"{movie} ({year}): {rating}"\<close>
  \<^item> \<open>Average_line\<close>: \<^verbatim>\<open>"Average rating: {round(average, 1)}"\<close> (holds \<open>average\<close>)
  \<^item> \<open>Median_line\<close>: \<^verbatim>\<open>"Median rating: {median}"\<close>
  \<^item> \<open>Best_line\<close>, \<open>Worst_line\<close>: \<^verbatim>\<open>"Best movie: {movie} ({year}), {rating}"\<close>
  \<^item> \<open>Tonight_line\<close>: \<^verbatim>\<open>"Your movie for tonight: {movie}, it's rated {rating}"\<close>
  \<^item> \<open>Not_found_line\<close>: \<^verbatim>\<open>"Movie {title} not found!"\<close>
  \<^item> \<open>Did_you_mean_line\<close>: \<^verbatim>\<open>'The movie "{title}" does not exist. Did you mean:'\<close>
  \<^item> \<open>Suggestion_line\<close>: \<^verbatim>\<open>"{fuzzy_movie} ({year}), {rating}"\<close>
\<close>

datatype line =
    Movie_line string int real
  | Average_line real
  | Median_line real
  | is_best: Best_line string int real
  | is_worst: Worst_line string int real
  | Tonight_line string real
  | Not_found_line string
  | Did_you_mean_line string
  | is_suggestion: Suggestion_line string int real

subsection \<open>Python primitives\<close>

definition keys :: "movies \<Rightarrow> string list" where
  "keys movies = map fst movies"

definition items :: "movies \<Rightarrow> (string \<times> movie_info) list" where
  "items movies = movies"

text \<open>\<^verbatim>\<open>movies[k]\<close>: raises \<^verbatim>\<open>KeyError\<close> for a missing key.\<close>

definition getitem :: "movies \<Rightarrow> string \<Rightarrow> py_error + movie_info" where
  "getitem movies k = (case map_of movies k of None \<Rightarrow> Inl KeyError | Some v \<Rightarrow> Inr v)"

text \<open>
  \<^verbatim>\<open>movies[k]['rating'] = r\<close>, the only write to a snapshot in \<^verbatim>\<open>movies.py\<close>
  (in \<^verbatim>\<open>update_movie\<close>, under the guard \<^verbatim>\<open>title in movies\<close>).
\<close>

fun set_rating :: "movies \<Rightarrow> string \<Rightarrow> real \<Rightarrow> movies" where
  "set_rating [] k r = []"
| "set_rating ((k', v) # rest) k r =
     (if k' = k then (k', v\<lparr>rating := r\<rparr>) # rest else (k', v) # set_rating rest k r)"

text \<open>
  \<^verbatim>\<open>xs[i]\<close>: an index from \<open>0\<close> counts from the front, an index from \<open>-1\<close>
  down to \<open>- len(xs)\<close> counts from the back, any other index raises \<^verbatim>\<open>IndexError\<close>.
\<close>

definition index :: "'a list \<Rightarrow> int \<Rightarrow> py_error + 'a" where
  "index xs i =
     (if 0 \<le> i \<and> i < int (length xs) then Inr (xs ! nat i)
      else if i < 0 \<and> - int (length xs) \<le> i then Inr (xs ! nat (int (length xs) + i))
      else Inl IndexError)"

text \<open>\<^verbatim>\<open>max(xs)\<close> and \<^verbatim>\<open>min(xs)\<close>: \<^verbatim>\<open>ValueError\<close> on an empty list.\<close>

definition py_max :: "real list \<Rightarrow> py_error + real" where
  "py_max xs = (case xs of [] \<Rightarrow> Inl ValueError | x # rest \<Rightarrow> Inr (fold max rest x))"

definition py_min :: "real list \<Rightarrow> py_error + real" where
  "py_min xs = (case xs of [] \<Rightarrow> Inl ValueError | x # rest \<Rightarrow> Inr (fold min rest x))"

text \<open>
  \<^verbatim>\<open>sorted(xs, key=key, reverse=reverse)\<close>.  Python's sort is stable, and with
  \<^verbatim>\<open>reverse=True\<close> it reverses the list, sorts it and reverses the result, so that
  equal keys still keep their original order.  \<open>sort_key\<close> is a stable insertion sort.
\<close>

definition sorted_py :: "('a \<Rightarrow> 'k::linorder) \<Rightarrow> bool \<Rightarrow> 'a list \<Rightarrow> 'a list" where
  "sorted_py key reverse xs =
     (if reverse then rev (sort_key key (rev xs)) else sort_key key xs)"

text \<open>
  \<^verbatim>\<open>random.choice(seq)\<close>: \<^verbatim>\<open>IndexError\<close> on an empty sequence, otherwise
  \<^verbatim>\<open>seq[randbelow(len(seq))]\<close>.  The number drawn is the parameter \<open>r\<close>, reduced
  below \<open>length seq\<close>.
\<close>

definition choice :: "nat \<Rightarrow> 'a list \<Rightarrow> py_error + 'a" where
  "choice r seq = (if seq = [] then Inl IndexError else Inr (seq ! (r mod length seq)))"

subsection \<open>The fuzzy matcher of the \<^verbatim>\<open>thefuzz\<close> library\<close>

text \<open>
  \<^verbatim>\<open>process.extract(query, choices, scorer=fuzz.token_set_ratio)\<close> is a library call;
  \<^verbatim>\<open>movies.py\<close> does not pass \<^verbatim>\<open>limit\<close>, so the library's default
  \<^verbatim>\<open>limit=5\<close> applies.  The library scores every choice, keeps the scores that reach
  \<^verbatim>\<open>score_cutoff=0\<close> (all of them: a score is between 0 and 100) and returns
  \<^verbatim>\<open>heapq.nlargest(limit, scored, key=score)\<close>, which is
  \<^verbatim>\<open>sorted(scored, key=score, reverse=True)[:limit]\<close>: the pairs
  \<^verbatim>\<open>(choice, score)\<close> by descending score, equal scores in the order of \<open>choices\<close>.
  The scorer \<^verbatim>\<open>fuzz.token_set_ratio\<close> (with the library's preprocessing of both
  strings) is the parameter \<open>scorer\<close>.
\<close>

definition process_extract ::
  "(string \<Rightarrow> string \<Rightarrow> nat) \<Rightarrow> nat \<Rightarrow> string \<Rightarrow> string list \<Rightarrow> (string \<times> nat) list" where
  "process_extract scorer limit query choices =
     take limit (sorted_py snd True (map (\<lambda>choice. (choice, scorer query choice)) choices))"

section \<open>Operations of \<^verbatim>\<open>movies.py\<close>\<close>

text \<open>
  Every operation starts with \<^verbatim>\<open>movies = storage.list_movies()\<close>; the snapshot read
  there is the argument \<open>movies\<close>.  An operation returns what it printed, or the exception
  that ended it, together with the snapshot as it is when the operation ends.
\<close>

subsection \<open>\<^verbatim>\<open>stats\<close>\<close>

text \<open>\<^verbatim>\<open>[movies[movie]["rating"] for movie in movies]\<close>\<close>

fun ratings_of :: "movies \<Rightarrow> string list \<Rightarrow> py_error + real list" where
  "ratings_of movies [] = Inr []"
| "ratings_of movies (movie # rest) =
     (case getitem movies movie of
        Inl e \<Rightarrow> Inl e
      | Inr info \<Rightarrow>
          (case ratings_of movies rest of
             Inl e \<Rightarrow> Inl e
           | Inr rs \<Rightarrow> Inr (rating info # rs)))"

text \<open>
  \<^verbatim>\<open>mid = int(len(sorted_ratings) / 2)\<close> is \<open>length sorted_ratings div 2\<close>; the odd
  case reads \<^verbatim>\<open>sorted_ratings[mid]\<close>, the even case
  \<^verbatim>\<open>(sorted_ratings[mid - 1] + sorted_ratings[mid]) / 2\<close>.
\<close>

definition median_of :: "real list \<Rightarrow> py_error + real" where
  "median_of ratings =
     (let sorted_ratings = sorted_py (\<lambda>x. x) False ratings;
          mid = int (length sorted_ratings) div 2
      in if length sorted_ratings mod 2 \<noteq> 0 then index sorted_ratings mid
         else (case index sorted_ratings (mid - 1) of
                 Inl e \<Rightarrow> Inl e
               | Inr a \<Rightarrow>
                   (case index sorted_ratings mid of
                      Inl e \<Rightarrow> Inl e
                    | Inr b \<Rightarrow> Inr ((a + b) / 2))))"

text \<open>The loop that prints the best and the worst movies.\<close>

fun best_worst_loop :: "movies \<Rightarrow> real \<Rightarrow> real \<Rightarrow> string list \<Rightarrow> py_error + line list" where
  "best_worst_loop movies maximum minimum [] = Inr []"
| "best_worst_loop movies maximum minimum (movie # rest) =
     (case getitem movies movie of
        Inl e \<Rightarrow> Inl e
      | Inr info \<Rightarrow>
          (case best_worst_loop movies maximum minimum rest of
             Inl e \<Rightarrow> Inl e
           | Inr out \<Rightarrow>
               Inr ((if rating info = maximum
                     then [Best_line movie (year info) (rating info)] else [])
                  @ (if rating info = minimum
                     then [Worst_line movie (year info) (rating info)] else [])
                  @ out)))"

definition stats :: "movies \<Rightarrow> (py_error + line list) \<times> movies" where
  "stats movies =
     ((case ratings_of movies (keys movies) of
         Inl e \<Rightarrow> Inl e
       | Inr ratings \<Rightarrow>
           if length ratings = 0 then Inl ZeroDivisionError
           else
             let average = sum_list ratings / real (length ratings) in
             (case median_of ratings of
                Inl e \<Rightarrow> Inl e
              | Inr median \<Rightarrow>
                  (case py_max ratings of
                     Inl e \<Rightarrow> Inl e
                   | Inr maximum \<Rightarrow>
                       (case py_min ratings of
                          Inl e \<Rightarrow> Inl e
                        | Inr minimum \<Rightarrow>
                            (case best_worst_loop movies maximum minimum (keys movies) of
                               Inl e \<Rightarrow> Inl e
                             | Inr out \<Rightarrow>
                                 Inr (Average_line average # Median_line median # out)))))),
      movies)"

subsection \<open>\<^verbatim>\<open>random_movie\<close>\<close>

definition random_movie :: "nat \<Rightarrow> movies \<Rightarrow> (py_error + line list) \<times> movies" where
  "random_movie r movies =
     ((case choice r (items movies) of
         Inl e \<Rightarrow> Inl e
       | Inr (movie, values) \<Rightarrow> Inr [Tonight_line movie (rating values)]),
      movies)"

subsection \<open>\<^verbatim>\<open>search_movie\<close>\<close>

text \<open>
  The argument \<open>title\<close> is the string the prompt loop returns (the loop repeats until the
  input is not empty).  Python's \<^verbatim>\<open>str.lower()\<close>, which lowers every cased letter of
  Unicode, is the parameter \<open>lower\<close>: what is proved of the search holds for every such
  function.  \<open>keyword_loop\<close> is the first loop: it returns the lines printed and the flag
  \<^verbatim>\<open>movie_is_found\<close>.
\<close>

fun keyword_loop ::
  "(string \<Rightarrow> string) \<Rightarrow> movies \<Rightarrow> string \<Rightarrow> string list \<Rightarrow> py_error + (line list \<times> bool)" where
  "keyword_loop lower movies title [] = Inr ([], False)"
| "keyword_loop lower movies title (movie # rest) =
     (if sublist (lower title) (lower movie)
      then (case getitem movies movie of
              Inl e \<Rightarrow> Inl e
            | Inr info \<Rightarrow>
                (case keyword_loop lower movies title rest of
                   Inl e \<Rightarrow> Inl e
                 | Inr (out, movie_is_found) \<Rightarrow>
                     Inr (Movie_line movie (year info) (rating info) # out, True)))
      else keyword_loop lower movies title rest)"

text \<open>The loop over \<^verbatim>\<open>fuzzy_search\<close> that prints the suggestions.\<close>

fun suggestion_loop :: "movies \<Rightarrow> (string \<times> nat) list \<Rightarrow> py_error + line list" where
  "suggestion_loop movies [] = Inr []"
| "suggestion_loop movies ((fuzzy_movie, score) # rest) =
     (if score \<ge> 53
      then (case getitem movies fuzzy_movie of
              Inl e \<Rightarrow> Inl e
            | Inr info \<Rightarrow>
                (case suggestion_loop movies rest of
                   Inl e \<Rightarrow> Inl e
                 | Inr out \<Rightarrow> Inr (Suggestion_line fuzzy_movie (year info) (rating info) # out)))
      else suggestion_loop movies rest)"

definition search_movie ::
  "(string \<Rightarrow> string) \<Rightarrow> (string \<Rightarrow> string \<Rightarrow> nat) \<Rightarrow> movies \<Rightarrow> string \<Rightarrow>
     (py_error + line list) \<times> movies" where
  "search_movie lower scorer movies title =
     ((case keyword_loop lower movies title (keys movies) of
         Inl e \<Rightarrow> Inl e
       | Inr (out, movie_is_found) \<Rightarrow>
           if \<not> movie_is_found
           then (let fuzzy_search = process_extract scorer 5 title (keys movies) in
                 case index fuzzy_search 0 of
                   Inl e \<Rightarrow> Inl e
                 | Inr first \<Rightarrow>
                     if snd first < 53 then Inr (out @ [Not_found_line title])
                     else (case suggestion_loop movies fuzzy_search of
                             Inl e \<Rightarrow> Inl e
                           | Inr sugg \<Rightarrow> Inr (out @ Did_you_mean_line title # sugg)))
           else Inr out),
      movies)"

subsection \<open>\<^verbatim>\<open>movies_sorted_by_rating\<close>\<close>

definition movies_sorted_by_rating :: "movies \<Rightarrow> (py_error + line list) \<times> movies" where
  "movies_sorted_by_rating movies =
     (let sorted_movies = sorted_py (\<lambda>x. rating (snd x)) True (items movies)
      in (Inr (map (\<lambda>movie. Movie_line (fst movie) (year (snd movie)) (rating (snd movie)))
                 sorted_movies),
          movies))"

subsection \<open>\<^verbatim>\<open>update_movie\<close>\<close>

text \<open>
  \<^verbatim>\<open>update_movie\<close> is the one operation that writes to its snapshot.  \<open>title\<close> and
  \<open>rating\<close> are the values its two prompt loops return (the second loop accepts only
  \<open>0 \<le> rating \<le> 10\<close>); the call of \<^verbatim>\<open>storage.update_movie\<close> that follows the
  write acts on the database, not on the snapshot.
\<close>

definition update_movie :: "movies \<Rightarrow> string \<Rightarrow> real \<Rightarrow> (py_error + line list) \<times> movies" where
  "update_movie movies title r =
     (if title \<in> set (keys movies) then (Inr [], set_rating movies title r)
      else (Inr [Not_found_line title], movies))"

section \<open>Notions of the specification\<close>

text \<open>
  The median as the specification words it: sort the ratings ascending; for an odd count
  \<open>n\<close> the element at index \<open>n div 2\<close>, for an even count the arithmetic mean of the
  elements at indices \<open>n div 2 - 1\<close> and \<open>n div 2\<close>.
\<close>

definition median_spec :: "real list \<Rightarrow> real" where
  "median_spec ratings =
     (let ascending = sort ratings; n = length ratings
      in if odd n then ascending ! (n div 2)
         else (ascending ! (n div 2 - 1) + ascending ! (n div 2)) / 2)"

text \<open>
  The ranking of the fuzzy phase: the records of the snapshot by descending score against
  the query, equal scores in snapshot order.
\<close>

definition ranked :: "(string \<Rightarrow> string \<Rightarrow> nat) \<Rightarrow> string \<Rightarrow> movies \<Rightarrow> movies" where
  "ranked scorer title movies = sorted_py (\<lambda>m. scorer title (fst m)) True movies"

text \<open>
  \<^verbatim>\<open>str.lower()\<close> on strings of ASCII characters, where it lowers the letters
  \<^verbatim>\<open>A..Z\<close> and keeps every other character.  It stands for \<open>lower\<close> in the concrete
  cases below, whose titles and queries are ASCII strings.
\<close>

definition ascii_lower_char :: "char \<Rightarrow> char" where
  "ascii_lower_char c =
     (case map_of (zip ''ABCDEFGHIJKLMNOPQRSTUVWXYZ'' ''abcdefghijklmnopqrstuvwxyz'') c of
        None \<Rightarrow> c
      | Some l \<Rightarrow> l)"

definition ascii_lower :: "string \<Rightarrow> string" where
  "ascii_lower s = map ascii_lower_char s"

text \<open>
  A scorer given by a table of scores, for the concrete snapshots below: the score of a
  title is the one the table lists for it, and \<open>0\<close> for a title it does not list.
\<close>

definition score_table :: "(string \<times> nat) list \<Rightarrow> string \<Rightarrow> string \<Rightarrow> nat" where
  "score_table table query c = (case map_of table c of None \<Rightarrow> 0 | Some s \<Rightarrow> s)"

text \<open>The record of a movie of the concrete snapshots below (no poster).\<close>

definition mk_info :: "int \<Rightarrow> real \<Rightarrow> movie_info" where
  "mk_info y r = \<lparr>year = y, rating = r, image_url = []\<rparr>"

text \<open>
  The snapshots of the concrete cases below, each with the scores that
  \<^verbatim>\<open>fuzz.token_set_ratio\<close> gives its titles for the query of the case.  The scorer lowers
  both strings and splits them into words.  When the words of one are all among the words
  of the other, the score is \<open>100\<close>.  When they share no word, the score is that of the two
  strings (words sorted), \<open>200 * c / (m + n)\<close> rounded to the nearest number, where \<open>m\<close>
  and \<open>n\<close> are the lengths and \<open>c\<close> is the length of a longest common subsequence.

  In \<open>matrix_movies\<close> every title holds the words \<open>the\<close> and \<open>matrix\<close>, and none holds the
  string \<open>matrix the\<close>: for the query \<open>matrix the\<close> the keyword search finds nothing and
  each title scores \<open>100\<close>.  \<open>maria\<close> shares four characters in order with
  \<open>matrix the\<close> (\<open>m\<close>, \<open>a\<close>, \<open>r\<close>, \<open>i\<close>), so \<open>Maria\<close> scores \<open>800 / 15\<close>, rounded \<open>53\<close>;
  likewise \<open>Heat\<close> scores \<open>400 / 14\<close>, rounded \<open>29\<close>, and \<open>Alien\<close> scores \<open>600 / 15 = 40\<close>.
  For the query \<open>Alein\<close> the titles \<open>Alien\<close>, \<open>Aliens\<close> and \<open>Heat\<close> score \<open>800 / 10 = 80\<close>,
  \<open>800 / 11\<close>, rounded \<open>73\<close>, and \<open>200 / 9\<close>, rounded \<open>22\<close>; for the query \<open>xyz\<close> they
  score \<open>0\<close>.
\<close>

definition matrix_movies :: movies where
  "matrix_movies =
     [(''The Matrix'', mk_info 1999 8.7),
      (''The Matrix Reloaded'', mk_info 2003 7.2),
      (''The Matrix Revolutions'', mk_info 2003 6.7),
      (''The Matrix Resurrections'', mk_info 2021 5.7),
      (''The Matrix Revisited'', mk_info 2001 7.3),
      (''Enter the Matrix'', mk_info 2003 6.9)]"

definition subset_scores :: "(string \<times> nat) list" where
  "subset_scores =
     [(''The Matrix'', 100), (''The Matrix Reloaded'', 100), (''The Matrix Revolutions'', 100),
      (''The Matrix Resurrections'', 100), (''The Matrix Revisited'', 100),
      (''Enter the Matrix'', 100)]"

definition maria_movies :: movies where
  "maria_movies = (''Maria'', mk_info 2024 6.4) # matrix_movies"

definition maria_scores :: "(string \<times> nat) list" where
  "maria_scores = (''Maria'', 53) # subset_scores"

definition heat_movies :: movies where
  "heat_movies =
     [(''Heat'', mk_info 1995 8.3), (''Maria'', mk_info 2024 6.4), (''Alien'', mk_info 1979 8.5)]"

definition heat_scores :: "(string \<times> nat) list" where
  "heat_scores = [(''Heat'', 29), (''Maria'', 53), (''Alien'', 40)]"

definition alien_movies :: movies where
  "alien_movies =
     [(''Alien'', mk_info 1979 8.5), (''Aliens'', mk_info 1986 8.4), (''Heat'', mk_info 1995 8.3)]"

definition alein_scores :: "(string \<times> nat) list" where
  "alein_scores = [(''Alien'', 80), (''Aliens'', 73), (''Heat'', 22)]"

definition no_scores :: "(string \<times> nat) list" where
  "no_scores = []"

section \<open>Facts about the primitives and the loops\<close>

text \<open>
  Under the dict invariant a key read from the snapshot is always found, so the loops of
  \<^verbatim>\<open>movies.py\<close> never end with \<^verbatim>\<open>KeyError\<close>, and what they print is a map or a
  filter of the records; \<open>sorted_py\<close> is a stable sort, and it commutes with \<open>map\<close>.
\<close>

lemma getitem_member:
  "distinct (map fst movies) \<Longrightarrow> (k, v) \<in> set movies \<Longrightarrow> getitem movies k = Inr v"
  by (simp add: getitem_def)

lemma ratings_of_items:
  "distinct (map fst movies) \<Longrightarrow> set ms \<subseteq> set movies \<Longrightarrow>
   ratings_of movies (map fst ms) = Inr (map (\<lambda>m. rating (snd m)) ms)"
proof (induction ms)
  case Nil
  then show ?case by simp
next
  case (Cons m ms)
  obtain k v where m: "m = (k, v)" by (cases m)
  with Cons.prems have "getitem movies k = Inr v"
    by (simp add: getitem_member)
  with Cons m show ?case by simp
qed

lemma best_worst_loop_items:
  "distinct (map fst movies) \<Longrightarrow> set ms \<subseteq> set movies \<Longrightarrow>
   best_worst_loop movies mx mn (map fst ms) =
     Inr (concat (map (\<lambda>m. (if rating (snd m) = mx
                              then [Best_line (fst m) (year (snd m)) (rating (snd m))] else [])
                           @ (if rating (snd m) = mn
                              then [Worst_line (fst m) (year (snd m)) (rating (snd m))] else []))
                      ms))"
proof (induction ms)
  case Nil
  then show ?case by simp
next
  case (Cons m ms)
  obtain k v where m: "m = (k, v)" by (cases m)
  with Cons.prems have "getitem movies k = Inr v"
    by (simp add: getitem_member)
  with Cons m show ?case by simp
qed

lemma keyword_loop_items:
  "distinct (map fst movies) \<Longrightarrow> set ms \<subseteq> set movies \<Longrightarrow>
   keyword_loop lower movies title (map fst ms) =
     Inr (map (\<lambda>m. Movie_line (fst m) (year (snd m)) (rating (snd m)))
            (filter (\<lambda>m. sublist (lower title) (lower (fst m))) ms),
          \<exists>m \<in> set ms. sublist (lower title) (lower (fst m)))"
proof (induction ms)
  case Nil
  then show ?case by simp
next
  case (Cons m ms)
  obtain k v where m: "m = (k, v)" by (cases m)
  with Cons.prems have "getitem movies k = Inr v"
    by (simp add: getitem_member)
  with Cons m show ?case by simp
qed

lemma suggestion_loop_items:
  "distinct (map fst movies) \<Longrightarrow> set ms \<subseteq> set movies \<Longrightarrow>
   suggestion_loop movies (map (\<lambda>m. (fst m, sc (fst m))) ms) =
     Inr (map (\<lambda>m. Suggestion_line (fst m) (year (snd m)) (rating (snd m)))
            (filter (\<lambda>m. 53 \<le> sc (fst m)) ms))"
proof (induction ms)
  case Nil
  then show ?case by simp
next
  case (Cons m ms)
  obtain k v where m: "m = (k, v)" by (cases m)
  with Cons.prems have "getitem movies k = Inr v"
    by (simp add: getitem_member)
  with Cons m show ?case by simp
qed

lemma keyword_loop_no_suggestion:
  "keyword_loop lower movies title ks = Inr (out, found) \<Longrightarrow> filter is_suggestion out = []"
  by (induction ks arbitrary: out found) (auto split: if_splits sum.splits)

lemma suggestion_loop_length:
  "suggestion_loop movies xs = Inr out \<Longrightarrow> length out \<le> length xs"
proof (induction xs arbitrary: out)
  case Nil
  then show ?case by simp
next
  case (Cons x xs)
  obtain t s where x: "x = (t, s)" by (cases x)
  show ?case
  proof (cases "53 \<le> s")
    case True
    with Cons.prems x obtain y0 r0 rest where
      rest: "suggestion_loop movies xs = Inr rest"
      and out: "out = Suggestion_line t y0 r0 # rest"
      by (auto split: sum.splits)
    from Cons.IH [OF rest] out show ?thesis by simp
  next
    case False
    with Cons.prems x have "suggestion_loop movies xs = Inr out" by simp
    from Cons.IH [OF this] show ?thesis by simp
  qed
qed

lemma suggestion_loop_titles:
  "suggestion_loop movies xs = Inr out \<Longrightarrow> Suggestion_line t y r \<in> set out \<Longrightarrow>
   t \<in> fst ` set xs"
proof (induction xs arbitrary: out)
  case Nil
  then show ?case by simp
next
  case (Cons x xs)
  obtain t' s where x: "x = (t', s)" by (cases x)
  show ?case
  proof (cases "53 \<le> s")
    case True
    with Cons.prems(1) x obtain y0 r0 rest where
      rest: "suggestion_loop movies xs = Inr rest"
      and out: "out = Suggestion_line t' y0 r0 # rest"
      by (auto split: sum.splits)
    from Cons.prems(2) out have "t = t' \<or> Suggestion_line t y r \<in> set rest" by auto
    with Cons.IH [OF rest] x show ?thesis by auto
  next
    case False
    with Cons.prems(1) x have "suggestion_loop movies xs = Inr out" by simp
    from Cons.IH [OF this Cons.prems(2)] show ?thesis by simp
  qed
qed

lemma mset_sorted_py: "mset (sorted_py key reverse xs) = mset xs"
  by (simp add: sorted_py_def)

lemma set_sorted_py: "set (sorted_py key reverse xs) = set xs"
  by (simp add: sorted_py_def)

lemma length_sorted_py: "length (sorted_py key reverse xs) = length xs"
  by (simp add: sorted_py_def)

lemma sorted_py_descending: "sorted (rev (map key (sorted_py key True xs)))"
  by (simp add: sorted_py_def rev_map [symmetric])

lemma sorted_py_stable:
  "filter (\<lambda>y. key y = k) (sorted_py key reverse xs) = filter (\<lambda>y. key y = k) xs"
  by (simp add: sorted_py_def rev_filter [symmetric] sort_key_stable)

lemma insort_key_map:
  "insort_key key (g x) (map g ys) = map g (insort_key (\<lambda>x. key (g x)) x ys)"
  by (induction ys) simp_all

lemma sort_key_map:
  "sort_key key (map g xs) = map g (sort_key (\<lambda>x. key (g x)) xs)"
  by (induction xs) (simp_all add: insort_key_map)

lemma sorted_py_map:
  "sorted_py key reverse (map g xs) = map g (sorted_py (\<lambda>x. key (g x)) reverse xs)"
  by (simp add: sorted_py_def rev_map sort_key_map)

lemma sorted_py_head_greatest:
  assumes "sorted_py key True xs = r # rs" and "x \<in> set xs"
  shows "key x \<le> key r"
proof -
  have "sorted (rev (map key (r # rs)))"
    using sorted_py_descending [of key xs] assms(1) by simp
  then have "\<forall>y \<in> set rs. key y \<le> key r"
    by (simp add: sorted_append)
  moreover have "x \<in> set (r # rs)"
    using assms set_sorted_py [of key True xs] by simp
  ultimately show ?thesis by auto
qed

lemma process_extract_keys:
  "process_extract scorer n title (keys movies) =
     map (\<lambda>m. (fst m, scorer title (fst m))) (take n (ranked scorer title movies))"
  by (simp add: process_extract_def keys_def ranked_def sorted_py_map take_map o_def)

lemma index_0: "index xs 0 = (case xs of [] \<Rightarrow> Inl IndexError | x # _ \<Rightarrow> Inr x)"
  by (cases xs) (simp_all add: index_def)

lemma index_nat: "i < length xs \<Longrightarrow> index xs (int i) = Inr (xs ! i)"
  by (simp add: index_def)

lemma py_max_Max: "rs \<noteq> [] \<Longrightarrow> py_max rs = Inr (Max (set rs))"
proof (cases rs)
  case Nil
  assume "rs \<noteq> []"
  with Nil show ?thesis by simp
next
  case (Cons r rest)
  have "fold max rest r = Max (set (r # rest))"
    by (rule Max.set_eq_fold [symmetric])
  with Cons show ?thesis by (simp add: py_max_def)
qed

lemma py_min_Min: "rs \<noteq> [] \<Longrightarrow> py_min rs = Inr (Min (set rs))"
proof (cases rs)
  case Nil
  assume "rs \<noteq> []"
  with Nil show ?thesis by simp
next
  case (Cons r rest)
  have "fold min rest r = Min (set (r # rest))"
    by (rule Min.set_eq_fold [symmetric])
  with Cons show ?thesis by (simp add: py_min_def)
qed

lemma median_of_spec:
  assumes "rs \<noteq> []"
  shows "median_of rs = Inr (median_spec rs)"
proof -
  define s where "s = sort rs"
  define m where "m = length rs div 2"
  have len: "length s = length rs" by (simp add: s_def)
  have n: "0 < length rs" using assms by simp
  have mid: "int (length s) div 2 = int m"
    by (simp add: len m_def zdiv_int)
  have m_less: "m < length s" using n by (simp add: len m_def)
  have at_mid: "index s (int m) = Inr (s ! m)"
    using m_less by (rule index_nat)
  show ?thesis
  proof (cases "odd (length rs)")
    case True
    then have "length s mod 2 \<noteq> 0" by (simp add: len odd_iff_mod_2_eq_one)
    then have "median_of rs = index s (int m)"
      by (simp add: median_of_def sorted_py_def Let_def s_def [symmetric] mid)
    with True at_mid show ?thesis
      by (simp add: median_spec_def Let_def s_def m_def)
  next
    case False
    then have "1 \<le> m" using n unfolding m_def by presburger
    then have before: "int m - 1 = int (m - 1)" by simp
    have "m - 1 < length s" using m_less by simp
    then have at_before: "index s (int m - 1) = Inr (s ! (m - 1))"
      unfolding before by (rule index_nat)
    from False have "length s mod 2 = 0" by (simp add: len)
    then have "median_of rs = Inr ((s ! (m - 1) + s ! m) / 2)"
      by (simp add: median_of_def sorted_py_def Let_def s_def [symmetric] mid at_before at_mid)
    with False show ?thesis
      by (simp add: median_spec_def Let_def s_def m_def)
  qed
qed

section \<open>Search\<close>

text \<open>
  What \<^verbatim>\<open>search_movie\<close> prints on a snapshot with distinct keys: the matching records
  when a title matches; otherwise, by the score of the best ranked title, either the
  not-found line or the suggestions among the first five of the ranking.
\<close>

lemma search_movie_found:
  assumes "distinct (keys movies)"
    and "\<exists>m \<in> set movies. sublist (lower title) (lower (fst m))"
  shows "fst (search_movie lower scorer movies title) =
     Inr (map (\<lambda>m. Movie_line (fst m) (year (snd m)) (rating (snd m)))
            (filter (\<lambda>m. sublist (lower title) (lower (fst m))) movies))"
proof -
  have d: "distinct (map fst movies)" using assms(1) by (simp add: keys_def)
  have "keyword_loop lower movies title (keys movies) =
     Inr (map (\<lambda>m. Movie_line (fst m) (year (snd m)) (rating (snd m)))
            (filter (\<lambda>m. sublist (lower title) (lower (fst m))) movies),
          \<exists>m \<in> set movies. sublist (lower title) (lower (fst m)))"
    unfolding keys_def using d by (rule keyword_loop_items) simp
  with assms(2) show ?thesis by (simp add: search_movie_def)
qed

lemma search_movie_fuzzy:
  assumes "distinct (keys movies)"
    and "\<not> (\<exists>m \<in> set movies. sublist (lower title) (lower (fst m)))"
    and "ranked scorer title movies = best # rest"
  shows "fst (search_movie lower scorer movies title) =
     (if scorer title (fst best) < 53 then Inr [Not_found_line title]
      else Inr (Did_you_mean_line title
              # map (\<lambda>m. Suggestion_line (fst m) (year (snd m)) (rating (snd m)))
                  (filter (\<lambda>m. 53 \<le> scorer title (fst m))
                     (take 5 (ranked scorer title movies)))))"
proof -
  have d: "distinct (map fst movies)" using assms(1) by (simp add: keys_def)
  have kw: "keyword_loop lower movies title (keys movies) = Inr ([], False)"
    unfolding keys_def using keyword_loop_items [OF d subset_refl, of lower title] assms(2)
    by (simp add: filter_empty_conv)
  have sub: "set (take 5 (ranked scorer title movies)) \<subseteq> set movies"
    using set_take_subset [of 5 "ranked scorer title movies"]
    by (simp add: ranked_def set_sorted_py)
  have sugg: "suggestion_loop movies (process_extract scorer 5 title (keys movies)) =
     Inr (map (\<lambda>m. Suggestion_line (fst m) (year (snd m)) (rating (snd m)))
            (filter (\<lambda>m. 53 \<le> scorer title (fst m)) (take 5 (ranked scorer title movies))))"
    unfolding process_extract_keys using d sub by (rule suggestion_loop_items)
  have first: "index (process_extract scorer 5 title (keys movies)) 0 =
     Inr (fst best, scorer title (fst best))"
    by (simp add: process_extract_keys assms(3) index_0)
  show ?thesis
    by (simp add: search_movie_def kw first sugg)
qed

text \<open>The concrete snapshots: keys, keyword matches and rankings.\<close>

lemma matrix_distinct: "distinct (keys matrix_movies)"
  by (simp add: matrix_movies_def keys_def)

lemma matrix_no_match:
  "\<not> (\<exists>m \<in> set matrix_movies. sublist (ascii_lower ''matrix the'') (ascii_lower (fst m)))"
  by (simp add: matrix_movies_def ascii_lower_def ascii_lower_char_def sublist_code(3))

lemma maria_distinct: "distinct (keys maria_movies)"
  by (simp add: maria_movies_def matrix_movies_def keys_def)

lemma maria_no_match:
  "\<not> (\<exists>m \<in> set maria_movies. sublist (ascii_lower ''matrix the'') (ascii_lower (fst m)))"
  using matrix_no_match
  by (simp add: maria_movies_def ascii_lower_def ascii_lower_char_def sublist_code(3))

lemma heat_distinct: "distinct (keys heat_movies)"
  by (simp add: heat_movies_def keys_def)

lemma heat_no_match:
  "\<not> (\<exists>m \<in> set heat_movies. sublist (ascii_lower ''matrix the'') (ascii_lower (fst m)))"
  by (simp add: heat_movies_def ascii_lower_def ascii_lower_char_def sublist_code(3))

lemma alien_distinct: "distinct (keys alien_movies)"
  by (simp add: alien_movies_def keys_def)

lemma alien_no_match:
  "\<not> (\<exists>m \<in> set alien_movies. sublist (ascii_lower ''Alein'') (ascii_lower (fst m)))"
  by (simp add: alien_movies_def ascii_lower_def ascii_lower_char_def sublist_code(3))

lemma alien_no_match_xyz:
  "\<not> (\<exists>m \<in> set alien_movies. sublist (ascii_lower ''xyz'') (ascii_lower (fst m)))"
  by (simp add: alien_movies_def ascii_lower_def ascii_lower_char_def sublist_code(3))

lemma ranked_subset_scores:
  "ranked (score_table subset_scores) ''matrix the'' matrix_movies = matrix_movies"
  by (simp add: ranked_def sorted_py_def score_table_def subset_scores_def matrix_movies_def)

lemma ranked_maria_scores:
  "ranked (score_table maria_scores) ''matrix the'' maria_movies =
     [(''The Matrix'', mk_info 1999 8.7),
      (''The Matrix Reloaded'', mk_info 2003 7.2),
      (''The Matrix Revolutions'', mk_info 2003 6.7),
      (''The Matrix Resurrections'', mk_info 2021 5.7),
      (''The Matrix Revisited'', mk_info 2001 7.3),
      (''Enter the Matrix'', mk_info 2003 6.9),
      (''Maria'', mk_info 2024 6.4)]"
  by (simp add: ranked_def sorted_py_def score_table_def maria_scores_def subset_scores_def
      maria_movies_def matrix_movies_def)

lemma ranked_heat_scores:
  "ranked (score_table heat_scores) ''matrix the'' heat_movies =
     [(''Maria'', mk_info 2024 6.4), (''Alien'', mk_info 1979 8.5), (''Heat'', mk_info 1995 8.3)]"
  by (simp add: ranked_def sorted_py_def score_table_def heat_scores_def heat_movies_def)

lemma ranked_alein_scores:
  "ranked (score_table alein_scores) ''Alein'' alien_movies = alien_movies"
  by (simp add: ranked_def sorted_py_def score_table_def alein_scores_def alien_movies_def)

lemma ranked_no_scores:
  "ranked (score_table no_scores) ''xyz'' alien_movies = alien_movies"
  by (simp add: ranked_def sorted_py_def score_table_def no_scores_def alien_movies_def)

text \<open>
  C1: for a snapshot with distinct keys and every lowering function, if at least one title
  contains the query as a case-insensitive substring (the lowered query is a substring of
  the lowered title), \<^verbatim>\<open>search_movie\<close> prints exactly the records whose titles contain
  it, in snapshot order, and the result does not depend on the scorer: the fuzzy phase
  plays no part, however the other titles would score.
\<close>

theorem exact_match_precedence:
  assumes "distinct (keys movies)"
    and "\<exists>m \<in> set movies. sublist (lower title) (lower (fst m))"
  shows "fst (search_movie lower scorer movies title) =
           Inr (map (\<lambda>m. Movie_line (fst m) (year (snd m)) (rating (snd m)))
                  (filter (\<lambda>m. sublist (lower title) (lower (fst m))) movies))
       \<and> search_movie lower scorer movies title = search_movie lower scorer' movies title"
proof
  show "fst (search_movie lower scorer movies title) =
           Inr (map (\<lambda>m. Movie_line (fst m) (year (snd m)) (rating (snd m)))
                  (filter (\<lambda>m. sublist (lower title) (lower (fst m))) movies))"
    using assms by (rule search_movie_found)
  have "fst (search_movie lower scorer movies title) = fst (search_movie lower scorer' movies title)"
    using assms by (simp add: search_movie_found)
  moreover have "snd (search_movie lower scorer movies title) = snd (search_movie lower scorer' movies title)"
    by (simp add: search_movie_def)
  ultimately show "search_movie lower scorer movies title = search_movie lower scorer' movies title"
    by (rule prod_eqI)
qed

theorem exact_match_precedence_witness:
  "distinct (keys matrix_movies)
   \<and> (\<exists>m \<in> set matrix_movies. sublist (ascii_lower ''RELOAD'') (ascii_lower (fst m)))
   \<and> fst (search_movie ascii_lower (score_table subset_scores) matrix_movies ''RELOAD'') =
       Inr [Movie_line ''The Matrix Reloaded'' 2003 7.2]
   \<and> search_movie ascii_lower (score_table subset_scores) matrix_movies ''RELOAD'' =
       search_movie ascii_lower (score_table no_scores) matrix_movies ''RELOAD''"
proof -
  have d: "distinct (keys matrix_movies)"
    by (rule matrix_distinct)
  have h: "\<exists>m \<in> set matrix_movies. sublist (ascii_lower ''RELOAD'') (ascii_lower (fst m))"
    by (simp add: matrix_movies_def ascii_lower_def ascii_lower_char_def sublist_code(3))
  have f: "map (\<lambda>m. Movie_line (fst m) (year (snd m)) (rating (snd m)))
             (filter (\<lambda>m. sublist (ascii_lower ''RELOAD'') (ascii_lower (fst m))) matrix_movies) =
           [Movie_line ''The Matrix Reloaded'' 2003 7.2]"
    by (simp add: matrix_movies_def ascii_lower_def ascii_lower_char_def sublist_code mk_info_def)
  show ?thesis
    using d h exact_match_precedence [OF d h, where scorer = "score_table subset_scores"
        and scorer' = "score_table no_scores"]
    unfolding f by blast
qed

text \<open>
  C2, as amended: for a snapshot with distinct keys and a query that no title contains,
  when some title scores at least \<open>53\<close>, the suggestions of \<^verbatim>\<open>search_movie\<close> (the pairs
  of \<^verbatim>\<open>fuzzy_search\<close> with a score of at least \<open>53\<close>) are the titles scoring at least
  \<open>53\<close> among the first five of the ranking, each paired with its score, and after the
  header one line is printed for each of them, in this order; the ranking holds every
  record of the snapshot by descending score, equal scores in snapshot order.  A title
  scoring at least \<open>53\<close> that ranks sixth or later is not suggested.
\<close>

theorem suggestions_among_best_five:
  assumes "distinct (keys movies)"
    and "\<not> (\<exists>m \<in> set movies. sublist (lower title) (lower (fst m)))"
    and "\<exists>m \<in> set movies. 53 \<le> scorer title (fst m)"
  shows "filter (\<lambda>suggestion. 53 \<le> snd suggestion)
             (process_extract scorer 5 title (keys movies)) =
           map (\<lambda>m. (fst m, scorer title (fst m)))
             (filter (\<lambda>m. 53 \<le> scorer title (fst m)) (take 5 (ranked scorer title movies)))
       \<and> fst (search_movie lower scorer movies title) =
           Inr (Did_you_mean_line title
              # map (\<lambda>m. Suggestion_line (fst m) (year (snd m)) (rating (snd m)))
                  (filter (\<lambda>m. 53 \<le> scorer title (fst m))
                     (take 5 (ranked scorer title movies))))
       \<and> mset (ranked scorer title movies) = mset movies
       \<and> sorted (rev (map (\<lambda>m. scorer title (fst m)) (ranked scorer title movies)))
       \<and> (\<forall>k. filter (\<lambda>m. scorer title (fst m) = k) (ranked scorer title movies) =
               filter (\<lambda>m. scorer title (fst m) = k) movies)"
proof (intro conjI allI)
  show "filter (\<lambda>suggestion. 53 \<le> snd suggestion)
             (process_extract scorer 5 title (keys movies)) =
           map (\<lambda>m. (fst m, scorer title (fst m)))
             (filter (\<lambda>m. 53 \<le> scorer title (fst m)) (take 5 (ranked scorer title movies)))"
    by (simp add: process_extract_keys filter_map o_def)
next
  from assms(3) obtain m where m: "m \<in> set movies" "53 \<le> scorer title (fst m)" by blast
  then have "length (ranked scorer title movies) \<noteq> 0"
    by (auto simp: ranked_def length_sorted_py)
  then obtain best rest where r: "ranked scorer title movies = best # rest"
    by (cases "ranked scorer title movies") auto
  have "scorer title (fst m) \<le> scorer title (fst best)"
    using r m(1) unfolding ranked_def by (rule sorted_py_head_greatest)
  with m(2) have "\<not> scorer title (fst best) < 53" by simp
  then show "fst (search_movie lower scorer movies title) =
           Inr (Did_you_mean_line title
              # map (\<lambda>m. Suggestion_line (fst m) (year (snd m)) (rating (snd m)))
                  (filter (\<lambda>m. 53 \<le> scorer title (fst m))
                     (take 5 (ranked scorer title movies))))"
    using search_movie_fuzzy [OF assms(1,2) r] by simp
next
  show "mset (ranked scorer title movies) = mset movies"
    unfolding ranked_def by (rule mset_sorted_py)
next
  show "sorted (rev (map (\<lambda>m. scorer title (fst m)) (ranked scorer title movies)))"
    unfolding ranked_def by (rule sorted_py_descending)
next
  show "filter (\<lambda>m. scorer title (fst m) = k) (ranked scorer title movies) =
        filter (\<lambda>m. scorer title (fst m) = k) movies" for k
    unfolding ranked_def by (rule sorted_py_stable)
qed

theorem suggestions_among_best_five_witness:
  "distinct (keys alien_movies)
   \<and> \<not> (\<exists>m \<in> set alien_movies. sublist (ascii_lower ''Alein'') (ascii_lower (fst m)))
   \<and> (\<exists>m \<in> set alien_movies. 53 \<le> score_table alein_scores ''Alein'' (fst m))
   \<and> filter (\<lambda>suggestion. 53 \<le> snd suggestion)
        (process_extract (score_table alein_scores) 5 ''Alein'' (keys alien_movies)) =
       [(''Alien'', 80), (''Aliens'', 73)]
   \<and> fst (search_movie ascii_lower (score_table alein_scores) alien_movies ''Alein'') =
       Inr [Did_you_mean_line ''Alein'', Suggestion_line ''Alien'' 1979 8.5,
            Suggestion_line ''Aliens'' 1986 8.4]"
proof -
  have h: "\<exists>m \<in> set alien_movies. 53 \<le> score_table alein_scores ''Alein'' (fst m)"
    by (simp add: alien_movies_def score_table_def alein_scores_def)
  have f: "filter (\<lambda>m. 53 \<le> score_table alein_scores ''Alein'' (fst m)) (take 5 alien_movies) =
       [(''Alien'', mk_info 1979 8.5), (''Aliens'', mk_info 1986 8.4)]"
    by (simp add: alien_movies_def score_table_def alein_scores_def)
  show ?thesis
    using alien_distinct alien_no_match h
      suggestions_among_best_five [where lower = ascii_lower
        and scorer = "score_table alein_scores" and movies = alien_movies
        and title = "''Alein''", OF alien_distinct alien_no_match h]
    unfolding ranked_alein_scores f
    by (simp add: score_table_def alein_scores_def mk_info_def)
qed

text \<open>
  C2 as stated fails: the six titles of \<open>matrix_movies\<close> all score \<open>100\<close> against the query
  \<open>matrix the\<close> and none contains it, but only the first five are suggested;
  \<open>Enter the Matrix\<close>, with a score of \<open>100\<close>, is not.
\<close>

theorem all_scoring_titles_counterexample:
  "distinct (keys matrix_movies)
   \<and> \<not> (\<exists>m \<in> set matrix_movies. sublist (ascii_lower ''matrix the'') (ascii_lower (fst m)))
   \<and> (''Enter the Matrix'', mk_info 2003 6.9) \<in> set matrix_movies
   \<and> score_table subset_scores ''matrix the'' ''Enter the Matrix'' = 100
   \<and> fst (search_movie ascii_lower (score_table subset_scores) matrix_movies ''matrix the'') =
       Inr [Did_you_mean_line ''matrix the'',
            Suggestion_line ''The Matrix'' 1999 8.7,
            Suggestion_line ''The Matrix Reloaded'' 2003 7.2,
            Suggestion_line ''The Matrix Revolutions'' 2003 6.7,
            Suggestion_line ''The Matrix Resurrections'' 2021 5.7,
            Suggestion_line ''The Matrix Revisited'' 2001 7.3]
   \<and> \<not> (\<exists>out. fst (search_movie ascii_lower (score_table subset_scores) matrix_movies ''matrix the'') =
               Inr out
             \<and> Suggestion_line ''Enter the Matrix'' 2003 6.9 \<in> set out)"
proof -
  have r: "ranked (score_table subset_scores) ''matrix the'' matrix_movies =
     (''The Matrix'', mk_info 1999 8.7) # tl matrix_movies"
    unfolding ranked_subset_scores by (simp add: matrix_movies_def)
  have "fst (search_movie ascii_lower (score_table subset_scores) matrix_movies ''matrix the'') =
       Inr [Did_you_mean_line ''matrix the'',
            Suggestion_line ''The Matrix'' 1999 8.7,
            Suggestion_line ''The Matrix Reloaded'' 2003 7.2,
            Suggestion_line ''The Matrix Revolutions'' 2003 6.7,
            Suggestion_line ''The Matrix Resurrections'' 2021 5.7,
            Suggestion_line ''The Matrix Revisited'' 2001 7.3]"
    unfolding search_movie_fuzzy [where lower = ascii_lower and scorer = "score_table subset_scores",
        OF matrix_distinct matrix_no_match r] ranked_subset_scores
    by (simp add: matrix_movies_def score_table_def subset_scores_def mk_info_def)
  then show ?thesis
    using matrix_distinct matrix_no_match
    by (simp add: matrix_movies_def score_table_def subset_scores_def)
qed

text \<open>
  C3, as amended: for a snapshot with distinct keys and a query that no title contains, a
  title whose score is exactly \<open>53\<close> (or above) is suggested when it is among the first five
  of the ranking, a title scoring \<open>52\<close> (or below) is never suggested, and when every score
  of the (non-empty) snapshot is \<open>52\<close> or below only the not-found line is printed.
\<close>

theorem threshold_boundary:
  assumes "distinct (keys movies)"
    and "\<not> (\<exists>m \<in> set movies. sublist (lower title) (lower (fst m)))"
    and "(t, i) \<in> set movies"
  shows "\<exists>out. fst (search_movie lower scorer movies title) = Inr out
     \<and> (53 \<le> scorer title t \<and> (t, i) \<in> set (take 5 (ranked scorer title movies))
          \<longrightarrow> Suggestion_line t (year i) (rating i) \<in> set out)
     \<and> (scorer title t \<le> 52 \<longrightarrow> (\<forall>y r. Suggestion_line t y r \<notin> set out))
     \<and> ((\<forall>m \<in> set movies. scorer title (fst m) \<le> 52) \<longrightarrow> out = [Not_found_line title])"
proof -
  have "length (ranked scorer title movies) \<noteq> 0"
    using assms(3) by (auto simp: ranked_def length_sorted_py)
  then obtain best rest where r: "ranked scorer title movies = best # rest"
    by (cases "ranked scorer title movies") auto
  have best_in: "best \<in> set movies"
    using r set_sorted_py [of "\<lambda>m. scorer title (fst m)" True movies]
    by (auto simp: ranked_def)
  have greatest: "scorer title t \<le> scorer title (fst best)"
    using sorted_py_head_greatest [OF r [unfolded ranked_def] assms(3)] by simp
  note out = search_movie_fuzzy [OF assms(1,2) r]
  show ?thesis
  proof (cases "scorer title (fst best) < 53")
    case True
    with out have "fst (search_movie lower scorer movies title) = Inr [Not_found_line title]"
      by simp
    moreover from True greatest have "\<not> 53 \<le> scorer title t" by simp
    ultimately show ?thesis by simp
  next
    case False
    define sugg where "sugg = map (\<lambda>m. Suggestion_line (fst m) (year (snd m)) (rating (snd m)))
        (filter (\<lambda>m. 53 \<le> scorer title (fst m)) (take 5 (ranked scorer title movies)))"
    from False out have res: "fst (search_movie lower scorer movies title) =
        Inr (Did_you_mean_line title # sugg)"
      by (simp add: sugg_def)
    have included: "Suggestion_line t (year i) (rating i) \<in> set (Did_you_mean_line title # sugg)"
      if "53 \<le> scorer title t" and "(t, i) \<in> set (take 5 (ranked scorer title movies))"
      using that by (force simp: sugg_def)
    have excluded: "Suggestion_line t y r \<notin> set (Did_you_mean_line title # sugg)"
      if "scorer title t \<le> 52" for y r
      using that by (auto simp: sugg_def)
    have not_low: "\<not> (\<forall>m \<in> set movies. scorer title (fst m) \<le> 52)"
      using False best_in by force
    from res included excluded not_low show ?thesis by blast
  qed
qed

theorem threshold_boundary_witness:
  "distinct (keys heat_movies)
   \<and> \<not> (\<exists>m \<in> set heat_movies. sublist (ascii_lower ''matrix the'') (ascii_lower (fst m)))
   \<and> (''Maria'', mk_info 2024 6.4) \<in> set heat_movies
   \<and> score_table heat_scores ''matrix the'' ''Maria'' = 53
   \<and> (''Maria'', mk_info 2024 6.4)
        \<in> set (take 5 (ranked (score_table heat_scores) ''matrix the'' heat_movies))
   \<and> (\<exists>out. fst (search_movie ascii_lower (score_table heat_scores) heat_movies ''matrix the'') =
           Inr out
         \<and> Suggestion_line ''Maria'' 2024 6.4 \<in> set out)
   \<and> (''Heat'', mk_info 1995 8.3) \<in> set heat_movies
   \<and> score_table heat_scores ''matrix the'' ''Heat'' = 29
   \<and> (\<exists>out. fst (search_movie ascii_lower (score_table heat_scores) heat_movies ''matrix the'') =
           Inr out
         \<and> (\<forall>y r. Suggestion_line ''Heat'' y r \<notin> set out))
   \<and> distinct (keys alien_movies)
   \<and> \<not> (\<exists>m \<in> set alien_movies. sublist (ascii_lower ''xyz'') (ascii_lower (fst m)))
   \<and> \<not> (\<exists>m \<in> set alien_movies. 52 < score_table no_scores ''xyz'' (fst m))
   \<and> fst (search_movie ascii_lower (score_table no_scores) alien_movies ''xyz'') =
       Inr [Not_found_line ''xyz'']"
proof -
  have maria: "(''Maria'', mk_info 2024 6.4) \<in> set heat_movies"
    and heat: "(''Heat'', mk_info 1995 8.3) \<in> set heat_movies"
    by (simp_all add: heat_movies_def)
  have alien: "(''Alien'', mk_info 1979 8.5) \<in> set alien_movies"
    by (simp add: alien_movies_def)
  have s53: "score_table heat_scores ''matrix the'' ''Maria'' = 53"
    and s29: "score_table heat_scores ''matrix the'' ''Heat'' = 29"
    by (simp_all add: score_table_def heat_scores_def)
  have top5: "(''Maria'', mk_info 2024 6.4)
        \<in> set (take 5 (ranked (score_table heat_scores) ''matrix the'' heat_movies))"
    unfolding ranked_heat_scores by simp
  have low: "\<forall>m \<in> set alien_movies. score_table no_scores ''xyz'' (fst m) \<le> 52"
    by (simp add: alien_movies_def score_table_def no_scores_def)
  have year_rating: "year (mk_info 2024 6.4) = 2024" "rating (mk_info 2024 6.4) = 6.4"
    by (simp_all add: mk_info_def)
  from threshold_boundary [where lower = ascii_lower and scorer = "score_table heat_scores",
      OF heat_distinct heat_no_match maria] s53 top5
  have a: "\<exists>out. fst (search_movie ascii_lower (score_table heat_scores) heat_movies
             ''matrix the'') = Inr out
         \<and> Suggestion_line ''Maria'' 2024 6.4 \<in> set out"
    unfolding year_rating by force
  from threshold_boundary [where lower = ascii_lower and scorer = "score_table heat_scores",
      OF heat_distinct heat_no_match heat] s29
  have b: "\<exists>out. fst (search_movie ascii_lower (score_table heat_scores) heat_movies
             ''matrix the'') = Inr out
         \<and> (\<forall>y r. Suggestion_line ''Heat'' y r \<notin> set out)"
    by force
  from threshold_boundary [where lower = ascii_lower and scorer = "score_table no_scores",
      OF alien_distinct alien_no_match_xyz alien] low
  have c: "fst (search_movie ascii_lower (score_table no_scores) alien_movies ''xyz'') =
       Inr [Not_found_line ''xyz'']"
    by blast
  from low have low': "\<not> (\<exists>m \<in> set alien_movies. 52 < score_table no_scores ''xyz'' (fst m))"
    by (simp add: not_less)
  show ?thesis
    using heat_distinct heat_no_match maria s53 top5 a heat s29 b alien_distinct
      alien_no_match_xyz low' c
    by (intro conjI)
qed

text \<open>
  C3 as stated fails: in \<open>maria_movies\<close> no title contains the query \<open>matrix the\<close>,
  \<open>Maria\<close> scores exactly \<open>53\<close> and six titles score \<open>100\<close>; \<open>Maria\<close> ranks seventh and is
  not suggested.
\<close>

theorem score_53_counterexample:
  "distinct (keys maria_movies)
   \<and> \<not> (\<exists>m \<in> set maria_movies. sublist (ascii_lower ''matrix the'') (ascii_lower (fst m)))
   \<and> (''Maria'', mk_info 2024 6.4) \<in> set maria_movies
   \<and> score_table maria_scores ''matrix the'' ''Maria'' = 53
   \<and> fst (search_movie ascii_lower (score_table maria_scores) maria_movies ''matrix the'') =
       Inr [Did_you_mean_line ''matrix the'',
            Suggestion_line ''The Matrix'' 1999 8.7,
            Suggestion_line ''The Matrix Reloaded'' 2003 7.2,
            Suggestion_line ''The Matrix Revolutions'' 2003 6.7,
            Suggestion_line ''The Matrix Resurrections'' 2021 5.7,
            Suggestion_line ''The Matrix Revisited'' 2001 7.3]
   \<and> \<not> (\<exists>out. fst (search_movie ascii_lower (score_table maria_scores) maria_movies
                 ''matrix the'') = Inr out
             \<and> Suggestion_line ''Maria'' 2024 6.4 \<in> set out)"
proof -
  have "fst (search_movie ascii_lower (score_table maria_scores) maria_movies ''matrix the'') =
       Inr [Did_you_mean_line ''matrix the'',
            Suggestion_line ''The Matrix'' 1999 8.7,
            Suggestion_line ''The Matrix Reloaded'' 2003 7.2,
            Suggestion_line ''The Matrix Revolutions'' 2003 6.7,
            Suggestion_line ''The Matrix Resurrections'' 2021 5.7,
            Suggestion_line ''The Matrix Revisited'' 2001 7.3]"
    unfolding search_movie_fuzzy [where lower = ascii_lower
        and scorer = "score_table maria_scores",
        OF maria_distinct maria_no_match ranked_maria_scores] ranked_maria_scores
    by (simp add: score_table_def maria_scores_def subset_scores_def mk_info_def)
  then show ?thesis
    using maria_distinct maria_no_match
    by (simp add: maria_movies_def score_table_def maria_scores_def)
qed

text \<open>
  C4 fails on the code: on an empty snapshot \<^verbatim>\<open>process.extract\<close> returns the empty list
  and \<^verbatim>\<open>fuzzy_search[0]\<close> raises \<^verbatim>\<open>IndexError\<close>; no not-found line is printed.
\<close>

theorem search_empty_snapshot:
  "fst (search_movie lower scorer [] title) = Inl IndexError"
  by (simp add: search_movie_def keys_def process_extract_def sorted_py_def index_def)

text \<open>
  C10: whatever the snapshot, the scorer and the query, \<^verbatim>\<open>search_movie\<close> prints at most
  five suggestions, and every title it suggests is among the first five of the ranking.
\<close>

theorem at_most_five_suggestions:
  assumes "fst (search_movie lower scorer movies title) = Inr out"
  shows "length (filter is_suggestion out) \<le> 5
     \<and> (\<forall>t y r. Suggestion_line t y r \<in> set out \<longrightarrow>
          t \<in> fst ` set (take 5 (ranked scorer title movies)))"
proof -
  let ?fuzzy_search = "process_extract scorer 5 title (keys movies)"
  have len: "length ?fuzzy_search \<le> 5"
    by (simp add: process_extract_def)
  have titles: "fst ` set ?fuzzy_search = fst ` set (take 5 (ranked scorer title movies))"
    by (simp add: process_extract_keys image_image)
  from assms obtain kw found where
    kw: "keyword_loop lower movies title (keys movies) = Inr (kw, found)"
    by (auto simp: search_movie_def split: sum.splits)
  have none: "filter is_suggestion kw = []"
    using kw by (rule keyword_loop_no_suggestion)
  then have kw_free: "Suggestion_line t y r \<notin> set kw" for t y r
    by (auto simp: filter_empty_conv)
  show ?thesis
  proof (cases found)
    case True
    with assms kw have "out = kw" by (simp add: search_movie_def)
    with none kw_free show ?thesis by simp
  next
    case False
    with assms kw obtain first where
      "index ?fuzzy_search 0 = Inr first"
      and out: "(if snd first < 53 then Inr (kw @ [Not_found_line title])
           else (case suggestion_loop movies ?fuzzy_search of
                   Inl e \<Rightarrow> Inl e
                 | Inr sugg \<Rightarrow> Inr (kw @ Did_you_mean_line title # sugg))) = Inr out"
      by (auto simp: search_movie_def Let_def split: sum.splits)
    show ?thesis
    proof (cases "snd first < 53")
      case True
      with out have "out = kw @ [Not_found_line title]" by simp
      with none kw_free show ?thesis by simp
    next
      case False
      with out obtain sugg where
        sugg: "suggestion_loop movies ?fuzzy_search = Inr sugg"
        and o: "out = kw @ Did_you_mean_line title # sugg"
        by (auto split: sum.splits)
      have "length (filter is_suggestion sugg) \<le> length sugg" by (rule length_filter_le)
      also have "\<dots> \<le> length ?fuzzy_search" using sugg by (rule suggestion_loop_length)
      also note len
      finally have "length (filter is_suggestion out) \<le> 5"
        using o none by simp
      moreover have "t \<in> fst ` set (take 5 (ranked scorer title movies))"
        if "Suggestion_line t y r \<in> set out" for t y r
      proof -
        from that o kw_free have "Suggestion_line t y r \<in> set sugg" by auto
        with sugg have "t \<in> fst ` set ?fuzzy_search" by (rule suggestion_loop_titles)
        then show ?thesis by (simp only: titles)
      qed
      ultimately show ?thesis by blast
    qed
  qed
qed

theorem at_most_five_suggestions_witness:
  "fst (search_movie ascii_lower (score_table maria_scores) maria_movies ''matrix the'') =
     Inr [Did_you_mean_line ''matrix the'',
          Suggestion_line ''The Matrix'' 1999 8.7,
          Suggestion_line ''The Matrix Reloaded'' 2003 7.2,
          Suggestion_line ''The Matrix Revolutions'' 2003 6.7,
          Suggestion_line ''The Matrix Resurrections'' 2021 5.7,
          Suggestion_line ''The Matrix Revisited'' 2001 7.3]
   \<and> score_table maria_scores ''matrix the'' ''Enter the Matrix'' = 100
   \<and> score_table maria_scores ''matrix the'' ''Maria'' = 53
   \<and> length (filter is_suggestion
        [Did_you_mean_line ''matrix the'',
          Suggestion_line ''The Matrix'' 1999 8.7,
          Suggestion_line ''The Matrix Reloaded'' 2003 7.2,
          Suggestion_line ''The Matrix Revolutions'' 2003 6.7,
          Suggestion_line ''The Matrix Resurrections'' 2021 5.7,
          Suggestion_line ''The Matrix Revisited'' 2001 7.3]) \<le> 5"
proof -
  have e: "fst (search_movie ascii_lower (score_table maria_scores) maria_movies
        ''matrix the'') =
     Inr [Did_you_mean_line ''matrix the'',
          Suggestion_line ''The Matrix'' 1999 8.7,
          Suggestion_line ''The Matrix Reloaded'' 2003 7.2,
          Suggestion_line ''The Matrix Revolutions'' 2003 6.7,
          Suggestion_line ''The Matrix Resurrections'' 2021 5.7,
          Suggestion_line ''The Matrix Revisited'' 2001 7.3]"
    unfolding search_movie_fuzzy [where lower = ascii_lower
        and scorer = "score_table maria_scores",
        OF maria_distinct maria_no_match ranked_maria_scores] ranked_maria_scores
    by (simp add: score_table_def maria_scores_def subset_scores_def mk_info_def)
  have s: "score_table maria_scores ''matrix the'' ''Enter the Matrix'' = 100"
    "score_table maria_scores ''matrix the'' ''Maria'' = 53"
    by (simp_all add: score_table_def maria_scores_def subset_scores_def)
  from at_most_five_suggestions [OF e] e s show ?thesis by blast
qed

section \<open>Statistics\<close>

lemma stats_output:
  assumes "distinct (keys movies)" and "movies \<noteq> []"
  shows "fst (stats movies) =
     Inr (Average_line (sum_list (map (\<lambda>m. rating (snd m)) movies) / real (length movies))
        # Median_line (median_spec (map (\<lambda>m. rating (snd m)) movies))
        # concat (map (\<lambda>m.
              (if rating (snd m) = Max (set (map (\<lambda>m. rating (snd m)) movies))
               then [Best_line (fst m) (year (snd m)) (rating (snd m))] else [])
            @ (if rating (snd m) = Min (set (map (\<lambda>m. rating (snd m)) movies))
               then [Worst_line (fst m) (year (snd m)) (rating (snd m))] else []))
            movies))"
proof -
  define rs where "rs = map (\<lambda>m. rating (snd m)) movies"
  have d: "distinct (map fst movies)" using assms(1) by (simp add: keys_def)
  have rs: "ratings_of movies (keys movies) = Inr rs"
    unfolding keys_def rs_def using d by (rule ratings_of_items) simp
  have ne: "rs \<noteq> []" using assms(2) by (simp add: rs_def)
  have loop: "best_worst_loop movies (Max (set rs)) (Min (set rs)) (keys movies) =
     Inr (concat (map (\<lambda>m.
              (if rating (snd m) = Max (set rs)
               then [Best_line (fst m) (year (snd m)) (rating (snd m))] else [])
            @ (if rating (snd m) = Min (set rs)
               then [Worst_line (fst m) (year (snd m)) (rating (snd m))] else []))
            movies))"
    unfolding keys_def using d by (rule best_worst_loop_items) simp
  have "length rs = length movies" by (simp add: rs_def)
  then show ?thesis
    using ne assms(2)
    by (simp add: stats_def rs median_of_spec py_max_Max py_min_Min loop Let_def
        flip: rs_def)
qed

lemma best_lines_concat:
  "filter is_best (concat (map (\<lambda>m.
        (if P m then [Best_line (fst m) (year (snd m)) (rating (snd m))] else [])
      @ (if Q m then [Worst_line (fst m) (year (snd m)) (rating (snd m))] else [])) ms)) =
   map (\<lambda>m. Best_line (fst m) (year (snd m)) (rating (snd m))) (filter P ms)"
  by (induction ms) simp_all

lemma worst_lines_concat:
  "filter is_worst (concat (map (\<lambda>m.
        (if P m then [Best_line (fst m) (year (snd m)) (rating (snd m))] else [])
      @ (if Q m then [Worst_line (fst m) (year (snd m)) (rating (snd m))] else [])) ms)) =
   map (\<lambda>m. Worst_line (fst m) (year (snd m)) (rating (snd m))) (filter Q ms)"
  by (induction ms) simp_all

text \<open>
  C5: for every non-empty snapshot the median that \<^verbatim>\<open>stats\<close> prints is the one the
  specification describes (\<open>median_spec\<close>: ratings sorted ascending, the element at index
  \<open>n div 2\<close> for an odd count, the mean of the elements at indices \<open>n div 2 - 1\<close> and
  \<open>n div 2\<close> for an even count); ratings \<open>[5, 7, 9]\<close> give the median \<open>7\<close> and ratings
  \<open>[5, 6, 7, 9]\<close> give \<open>6.5\<close>.
\<close>

theorem median_rule:
  "(distinct (keys movies) \<and> movies \<noteq> [] \<longrightarrow>
      (\<exists>average out. fst (stats movies) =
         Inr (Average_line average
            # Median_line (median_spec (map (\<lambda>m. rating (snd m)) movies)) # out)))
   \<and> median_spec [5, 7, 9] = 7
   \<and> median_spec [5, 6, 7, 9] = 13 / 2
   \<and> fst (stats [(''A'', mk_info 2001 5), (''B'', mk_info 2002 7), (''C'', mk_info 2003 9)]) =
       Inr [Average_line 7, Median_line 7,
            Worst_line ''A'' 2001 5, Best_line ''C'' 2003 9]
   \<and> fst (stats [(''A'', mk_info 2001 5), (''B'', mk_info 2002 6), (''C'', mk_info 2003 7),
                 (''D'', mk_info 2004 9)]) =
       Inr [Average_line (27 / 4), Median_line (13 / 2),
            Worst_line ''A'' 2001 5, Best_line ''D'' 2004 9]"
proof (intro conjI impI)
  assume "distinct (keys movies) \<and> movies \<noteq> []"
  then show "\<exists>average out. fst (stats movies) =
         Inr (Average_line average
            # Median_line (median_spec (map (\<lambda>m. rating (snd m)) movies)) # out)"
    using stats_output [of movies] by blast
next
  show "median_spec [5, 7, 9] = 7"
    by (simp add: median_spec_def)
next
  show "median_spec [5, 6, 7, 9] = 13 / 2"
    by (simp add: median_spec_def)
next
  show "fst (stats [(''A'', mk_info 2001 5), (''B'', mk_info 2002 7), (''C'', mk_info 2003 9)]) =
       Inr [Average_line 7, Median_line 7,
            Worst_line ''A'' 2001 5, Best_line ''C'' 2003 9]"
    by (simp add: stats_def keys_def getitem_def median_of_def sorted_py_def index_def
        py_max_def py_min_def mk_info_def)
next
  show "fst (stats [(''A'', mk_info 2001 5), (''B'', mk_info 2002 6), (''C'', mk_info 2003 7),
                 (''D'', mk_info 2004 9)]) =
       Inr [Average_line (27 / 4), Median_line (13 / 2),
            Worst_line ''A'' 2001 5, Best_line ''D'' 2004 9]"
    by (simp add: stats_def keys_def getitem_def median_of_def sorted_py_def index_def
        py_max_def py_min_def mk_info_def)
qed

theorem median_rule_witness:
  "distinct (keys [(''W'', mk_info 1994 9), (''X'', mk_info 1999 5), (''Y'', mk_info 2008 7),
                   (''Z'', mk_info 2010 6)])
   \<and> [(''W'', mk_info 1994 9), (''X'', mk_info 1999 5), (''Y'', mk_info 2008 7),
       (''Z'', mk_info 2010 6)] \<noteq> []
   \<and> median_spec (map (\<lambda>m. rating (snd m))
        [(''W'', mk_info 1994 9), (''X'', mk_info 1999 5), (''Y'', mk_info 2008 7),
         (''Z'', mk_info 2010 6)]) = 13 / 2
   \<and> (\<exists>average out.
        fst (stats [(''W'', mk_info 1994 9), (''X'', mk_info 1999 5), (''Y'', mk_info 2008 7),
                    (''Z'', mk_info 2010 6)]) =
        Inr (Average_line average # Median_line (13 / 2) # out))"
  using median_rule [of "[(''W'', mk_info 1994 9), (''X'', mk_info 1999 5),
      (''Y'', mk_info 2008 7), (''Z'', mk_info 2010 6)]"]
  by (simp add: keys_def median_spec_def mk_info_def)

text \<open>
  C6: for every non-empty snapshot \<^verbatim>\<open>stats\<close> ends without an exception, and the lines
  \<^verbatim>\<open>Best movie\<close> it prints are, in snapshot order, exactly the records whose rating is the
  maximum rating of the snapshot, so every tie is reported; the lines \<^verbatim>\<open>Worst movie\<close> are
  exactly the records whose rating is the minimum rating.
\<close>

theorem best_worst_all_ties:
  assumes "distinct (keys movies)" and "movies \<noteq> []"
  shows "\<exists>out. fst (stats movies) = Inr out
       \<and> filter is_best out =
           map (\<lambda>m. Best_line (fst m) (year (snd m)) (rating (snd m)))
             (filter (\<lambda>m. rating (snd m) = Max (set (map (\<lambda>m. rating (snd m)) movies))) movies)
       \<and> filter is_worst out =
           map (\<lambda>m. Worst_line (fst m) (year (snd m)) (rating (snd m)))
             (filter (\<lambda>m. rating (snd m) = Min (set (map (\<lambda>m. rating (snd m)) movies))) movies)"
  unfolding stats_output [OF assms]
  by (simp add: best_lines_concat worst_lines_concat)

theorem best_worst_all_ties_witness:
  "distinct (keys [(''A'', mk_info 2001 8), (''B'', mk_info 2002 8), (''C'', mk_info 2003 5)])
   \<and> [(''A'', mk_info 2001 8), (''B'', mk_info 2002 8), (''C'', mk_info 2003 5)] \<noteq> []
   \<and> (\<exists>out.
        fst (stats [(''A'', mk_info 2001 8), (''B'', mk_info 2002 8), (''C'', mk_info 2003 5)]) =
          Inr out
        \<and> filter is_best out = [Best_line ''A'' 2001 8, Best_line ''B'' 2002 8]
        \<and> filter is_worst out = [Worst_line ''C'' 2003 5])
   \<and> fst (stats [(''A'', mk_info 2001 8), (''B'', mk_info 2002 8), (''C'', mk_info 2003 5)]) =
       Inr [Average_line 7, Median_line 8, Best_line ''A'' 2001 8, Best_line ''B'' 2002 8,
            Worst_line ''C'' 2003 5]"
proof -
  have d: "distinct (keys [(''A'', mk_info 2001 8), (''B'', mk_info 2002 8),
      (''C'', mk_info 2003 5)])"
    by (simp add: keys_def)
  have n: "[(''A'', mk_info 2001 8), (''B'', mk_info 2002 8), (''C'', mk_info 2003 5)] \<noteq> []"
    by simp
  have s: "fst (stats [(''A'', mk_info 2001 8), (''B'', mk_info 2002 8),
      (''C'', mk_info 2003 5)]) =
       Inr [Average_line 7, Median_line 8, Best_line ''A'' 2001 8, Best_line ''B'' 2002 8,
            Worst_line ''C'' 2003 5]"
    by (simp add: stats_def keys_def getitem_def median_of_def sorted_py_def index_def
        py_max_def py_min_def mk_info_def)
  have e: "\<exists>out.
        fst (stats [(''A'', mk_info 2001 8), (''B'', mk_info 2002 8), (''C'', mk_info 2003 5)]) =
          Inr out
        \<and> filter is_best out = [Best_line ''A'' 2001 8, Best_line ''B'' 2002 8]
        \<and> filter is_worst out = [Worst_line ''C'' 2003 5]"
    using best_worst_all_ties [OF d n] by (simp add: mk_info_def)
  from d n e s show ?thesis by (intro conjI)
qed

section \<open>Ranking by rating\<close>

text \<open>
  C7: \<^verbatim>\<open>movies_sorted_by_rating\<close> prints every record of the snapshot once, by descending
  rating, records of equal rating in snapshot order; on an empty snapshot it prints
  nothing and raises nothing; the snapshot \<open>A: 7, B: 9, C: 7\<close> is printed as \<open>B, A, C\<close>.
\<close>

theorem ranker_descending_stable:
  "(\<exists>sorted_movies.
      fst (movies_sorted_by_rating movies) =
        Inr (map (\<lambda>m. Movie_line (fst m) (year (snd m)) (rating (snd m))) sorted_movies)
      \<and> mset sorted_movies = mset movies
      \<and> sorted (rev (map (\<lambda>m. rating (snd m)) sorted_movies))
      \<and> (\<forall>r. filter (\<lambda>m. rating (snd m) = r) sorted_movies =
               filter (\<lambda>m. rating (snd m) = r) movies))
   \<and> fst (movies_sorted_by_rating []) = Inr []
   \<and> fst (movies_sorted_by_rating
        [(''A'', mk_info 2001 7), (''B'', mk_info 2002 9), (''C'', mk_info 2003 7)]) =
       Inr [Movie_line ''B'' 2002 9, Movie_line ''A'' 2001 7, Movie_line ''C'' 2003 7]"
proof (intro conjI)
  show "\<exists>sorted_movies.
      fst (movies_sorted_by_rating movies) =
        Inr (map (\<lambda>m. Movie_line (fst m) (year (snd m)) (rating (snd m))) sorted_movies)
      \<and> mset sorted_movies = mset movies
      \<and> sorted (rev (map (\<lambda>m. rating (snd m)) sorted_movies))
      \<and> (\<forall>r. filter (\<lambda>m. rating (snd m) = r) sorted_movies =
               filter (\<lambda>m. rating (snd m) = r) movies)"
  proof (intro exI conjI allI)
    show "fst (movies_sorted_by_rating movies) =
        Inr (map (\<lambda>m. Movie_line (fst m) (year (snd m)) (rating (snd m)))
          (sorted_py (\<lambda>m. rating (snd m)) True movies))"
      by (simp add: movies_sorted_by_rating_def items_def)
    show "mset (sorted_py (\<lambda>m. rating (snd m)) True movies) = mset movies"
      by (rule mset_sorted_py)
    show "sorted (rev (map (\<lambda>m. rating (snd m)) (sorted_py (\<lambda>m. rating (snd m)) True movies)))"
      by (rule sorted_py_descending)
    show "filter (\<lambda>m. rating (snd m) = r) (sorted_py (\<lambda>m. rating (snd m)) True movies) =
          filter (\<lambda>m. rating (snd m) = r) movies" for r
      by (rule sorted_py_stable)
  qed
next
  show "fst (movies_sorted_by_rating []) = Inr []"
    by (simp add: movies_sorted_by_rating_def items_def sorted_py_def)
next
  show "fst (movies_sorted_by_rating
        [(''A'', mk_info 2001 7), (''B'', mk_info 2002 9), (''C'', mk_info 2003 7)]) =
       Inr [Movie_line ''B'' 2002 9, Movie_line ''A'' 2001 7, Movie_line ''C'' 2003 7]"
    by (simp add: movies_sorted_by_rating_def items_def sorted_py_def mk_info_def)
qed

section \<open>Empty snapshots\<close>

text \<open>
  C8: on an empty snapshot \<^verbatim>\<open>stats\<close> ends with \<^verbatim>\<open>ZeroDivisionError\<close> (the
  division by \<^verbatim>\<open>len(ratings)\<close>) and \<^verbatim>\<open>random_movie\<close> ends with
  \<^verbatim>\<open>IndexError\<close>, whatever number is drawn; neither prints a line, so no default
  value and no made-up record is reported.
\<close>

theorem empty_snapshot_guards:
  "fst (stats []) = Inl ZeroDivisionError \<and> fst (random_movie r []) = Inl IndexError"
  by (simp add: stats_def random_movie_def keys_def items_def choice_def)

section \<open>The snapshot is only read\<close>

text \<open>
  C9: the search, the statistics, the ranking and the random choice end with the snapshot
  they started with, whether they print or raise.
\<close>

theorem snapshot_unchanged:
  "snd (search_movie lower scorer movies title) = movies
   \<and> snd (stats movies) = movies
   \<and> snd (movies_sorted_by_rating movies) = movies
   \<and> snd (random_movie r movies) = movies"
  by (simp add: search_movie_def stats_def movies_sorted_by_rating_def random_movie_def Let_def)

text \<open>By contrast \<^verbatim>\<open>update_movie\<close> ends with a changed snapshot.\<close>

lemma update_movie_writes:
  "snd (update_movie [(''A'', mk_info 2001 7)] ''A'' 9) = [(''A'', mk_info 2001 9)]"
  by (simp add: update_movie_def keys_def mk_info_def)

end
